theory Spec2Isabelle
  imports Main
begin

section \<open>Dates and times\<close>

text \<open>
  The validator of \<^verbatim>\<open>appointment_booking/models/booking.py\<close> works on Python
  \<^verbatim>\<open>datetime\<close> values: it compares them, subtracts a \<^verbatim>\<open>timedelta\<close>, asks for the
  weekday name (\<^verbatim>\<open>strftime('%A')\<close>) and for the clock time (\<^verbatim>\<open>.time()\<close>).

  A datetime is modelled as the number of microseconds since 0001-01-01 00:00:00 (the
  resolution of Python's datetime), all datetimes being read in one time zone, so that the
  order of instants is the order of the wall-clock fields. A clock time (\<^verbatim>\<open>datetime.time\<close>)
  is the number of microseconds since midnight, and a \<^verbatim>\<open>timedelta\<close> is a number of
  microseconds.
\<close>

type_synonym datetime = int
type_synonym time = int
type_synonym timedelta = int

definition us_per_day :: int where
  "us_per_day = 86400000000"

definition timedelta_seconds :: "int \<Rightarrow> timedelta" where
  "timedelta_seconds s = s * 1000000"

text \<open>\<^verbatim>\<open>date.toordinal()\<close>: 0001-01-01 is day 1.\<close>

definition toordinal :: "datetime \<Rightarrow> int" where
  "toordinal dt = dt div us_per_day + 1"

text \<open>\<^verbatim>\<open>date.weekday()\<close> is \<^verbatim>\<open>(self.toordinal() + 6) % 7\<close>, Monday being 0.\<close>

definition weekday :: "datetime \<Rightarrow> int" where
  "weekday dt = (toordinal dt + 6) mod 7"

definition weekday_names :: "string list" where
  "weekday_names =
     [''monday'', ''tuesday'', ''wednesday'', ''thursday'', ''friday'', ''saturday'', ''sunday'']"

text \<open>\<^verbatim>\<open>dt.strftime('%A').lower()\<close>, with the English day names of the C locale.\<close>

definition strftime_A_lower :: "datetime \<Rightarrow> string" where
  "strftime_A_lower dt = weekday_names ! nat (weekday dt)"

text \<open>\<^verbatim>\<open>dt.time()\<close>: the clock time of a datetime, its date dropped.\<close>

definition time_of :: "datetime \<Rightarrow> time" where
  "time_of dt = dt mod us_per_day"

text \<open>\<^verbatim>\<open>datetime.time(hour, minute)\<close>, seconds and microseconds being zero.\<close>

definition time_hm :: "int \<Rightarrow> int \<Rightarrow> time" where
  "time_hm hour minute = (hour * 3600 + minute * 60) * 1000000"

text \<open>
  The calendar of the standard library (\<^verbatim>\<open>_is_leap\<close>, \<^verbatim>\<open>_days_before_year\<close>,
  \<^verbatim>\<open>_days_before_month\<close>, \<^verbatim>\<open>_ymd2ord\<close>), used to write concrete datetimes by their
  year, month and day.
\<close>

definition is_leap :: "int \<Rightarrow> bool" where
  "is_leap year = (year mod 4 = 0 \<and> (year mod 100 \<noteq> 0 \<or> year mod 400 = 0))"

definition days_before_year :: "int \<Rightarrow> int" where
  "days_before_year year =
     (let y = year - 1 in y * 365 + y div 4 - y div 100 + y div 400)"

definition days_before_month :: "int \<Rightarrow> nat \<Rightarrow> int" where
  "days_before_month year month =
     [0, 0, 31, 59, 90, 120, 151, 181, 212, 243, 273, 304, 334] ! month
       + (if month > 2 \<and> is_leap year then 1 else 0)"

definition ymd2ord :: "int \<Rightarrow> nat \<Rightarrow> int \<Rightarrow> int" where
  "ymd2ord year month day = days_before_year year + days_before_month year month + day"

definition datetime_of :: "int \<Rightarrow> nat \<Rightarrow> int \<Rightarrow> int \<Rightarrow> int \<Rightarrow> int \<Rightarrow> datetime" where
  "datetime_of year month day hour minute second =
     ((ymd2ord year month day - 1) * 86400 + hour * 3600 + minute * 60 + second) * 1000000"


section \<open>Parsing a working-hours string\<close>

text \<open>
  \<^verbatim>\<open>datetime.strptime(s, "%I:%M%p")\<close> compiles the format to the regular expression
  \<^verbatim>\<open>(?P<I>1[0-2]|0[1-9]|[1-9]):(?P<M>[0-5]\d|\d)(?P<p>am|pm)\<close>, case-insensitive,
  matches it at the start of the string and raises \<^verbatim>\<open>ValueError\<close> when there is no
  match or when the match does not reach the end of the string. Each group below returns
  its ways to match a prefix, in the order the regular expression tries them, with the rest
  of the string. Strings are ASCII.
\<close>

definition re_I :: "string \<Rightarrow> (string \<times> string) list" where
  "re_I s =
     (case s of c1 # c2 # rest \<Rightarrow>
        if c1 = CHR ''1'' \<and> c2 \<in> set ''012'' then [([c1, c2], rest)] else [] | _ \<Rightarrow> [])
     @ (case s of c1 # c2 # rest \<Rightarrow>
        if c1 = CHR ''0'' \<and> c2 \<in> set ''123456789'' then [([c1, c2], rest)] else [] | _ \<Rightarrow> [])
     @ (case s of c1 # rest \<Rightarrow>
        if c1 \<in> set ''123456789'' then [([c1], rest)] else [] | _ \<Rightarrow> [])"

definition re_colon :: "string \<Rightarrow> string list" where
  "re_colon s = (case s of c # rest \<Rightarrow> if c = CHR '':'' then [rest] else [] | _ \<Rightarrow> [])"

definition re_M :: "string \<Rightarrow> (string \<times> string) list" where
  "re_M s =
     (case s of c1 # c2 # rest \<Rightarrow>
        if c1 \<in> set ''012345'' \<and> c2 \<in> set ''0123456789'' then [([c1, c2], rest)] else []
      | _ \<Rightarrow> [])
     @ (case s of c1 # rest \<Rightarrow>
        if c1 \<in> set ''0123456789'' then [([c1], rest)] else [] | _ \<Rightarrow> [])"

text \<open>The group \<^verbatim>\<open>p\<close>, returned in lower case as \<^verbatim>\<open>found_dict.get('p', '').lower()\<close>.\<close>

definition re_p :: "string \<Rightarrow> (string \<times> string) list" where
  "re_p s =
     (case s of c1 # c2 # rest \<Rightarrow>
        if c1 \<in> set ''aA'' \<and> c2 \<in> set ''mM'' then [(''am'', rest)]
        else if c1 \<in> set ''pP'' \<and> c2 \<in> set ''mM'' then [(''pm'', rest)]
        else []
      | _ \<Rightarrow> [])"

definition format_regex_match :: "string \<Rightarrow> (string \<times> string \<times> string \<times> string) list" where
  "format_regex_match s =
     [(i, m, p, r4). (i, r1) \<leftarrow> re_I s, r2 \<leftarrow> re_colon r1, (m, r3) \<leftarrow> re_M r2, (p, r4) \<leftarrow> re_p r3]"

text \<open>\<^verbatim>\<open>int(s)\<close> on a string of decimal digits.\<close>

definition int_of_digits :: "string \<Rightarrow> int" where
  "int_of_digits s = foldl (\<lambda>n c. 10 * n + (of_char c - 48)) 0 s"

text \<open>
  \<^verbatim>\<open>datetime.strptime(s, "%I:%M%p").time()\<close>; \<open>None\<close> stands for the \<^verbatim>\<open>ValueError\<close>
  of \<^verbatim>\<open>strptime\<close>.
\<close>

definition strptime_I_M_p :: "string \<Rightarrow> time option" where
  "strptime_I_M_p data_string =
     (case format_regex_match data_string of
        [] \<Rightarrow> None
      | (i, m, ampm, rest) # _ \<Rightarrow>
          if rest \<noteq> [] then None
          else
            let hour = int_of_digits i;
                hour = (if ampm = ''am'' then (if hour = 12 then 0 else hour)
                        else (if hour \<noteq> 12 then hour + 12 else hour));
                minute = int_of_digits m
            in Some (time_hm hour minute))"


section \<open>The data model\<close>

text \<open>
  Modelled from the spec: the \<^verbatim>\<open>Service\<close> model (\<^verbatim>\<open>models/service.py\<close>) is not part of
  the sources. The validator reads its primary key, when it filters bookings by service, and
  its attribute \<^verbatim>\<open>assigned_staffs\<close>, the staff member the service is assigned to, absent
  (\<open>None\<close>) when no staff is assigned.
\<close>

record service =
  service_pk :: nat
  assigned_staffs :: "nat option"

text \<open>
  Modelled from the spec: the \<^verbatim>\<open>Staff_Times\<close> model (\<^verbatim>\<open>models/staff_times.py\<close>) is not
  part of the sources. It holds one staff member's working hours: a mapping from the lower-case
  weekday name to an object with the string fields \<^verbatim>\<open>"start"\<close> and \<^verbatim>\<open>"end"\<close>.
\<close>

type_synonym day_times = "string \<rightharpoonup> string"

record staff_times =
  user :: nat
  working_hours :: "string \<rightharpoonup> day_times"

text \<open>
  The fields of \<^verbatim>\<open>Booking\<close>. The primary key \<^verbatim>\<open>id\<close> is \<open>None\<close> for a booking that has
  not been saved yet.
\<close>

record booking =
  id_pk :: "nat option"
  start_time :: datetime
  end_time :: datetime
  booked_by :: nat
  service_id :: service
  main_id :: nat
  branch_id :: nat
  is_canceled :: bool
  payment_status :: string

text \<open>
  What \<^verbatim>\<open>clean\<close> reads besides the booking itself: the clock (\<^verbatim>\<open>timezone.now()\<close>), the
  rows of \<^verbatim>\<open>Booking.objects\<close> and of \<^verbatim>\<open>Staff_Times.objects\<close> (in the order the database
  returns them), and the enumeration \<^verbatim>\<open>Order_Status_Choices\<close> of
  \<^verbatim>\<open>models/helper/enums.py\<close>, which is not part of the sources: its values and the text of
  \<^verbatim>\<open>get_available_choices()\<close> are parameters.
\<close>

record env =
  now :: datetime
  booking_objects :: "booking list"
  staff_times_objects :: "staff_times list"
  order_status_values :: "string list"
  available_choices :: string


section \<open>Exceptions\<close>

text \<open>
  \<^verbatim>\<open>ValidationError({field: message})\<close> is an error attached to a field;
  \<^verbatim>\<open>ValidationError(message, code=c)\<close> is attached to no field. \<^verbatim>\<open>ValueError\<close> is what
  \<^verbatim>\<open>strptime\<close> raises.
\<close>

datatype validation_error =
    FieldError string string
  | NonFieldError string string

datatype exn =
    ValidationError validation_error
  | ValueError

fun error_field :: "validation_error \<Rightarrow> string option" where
  "error_field (FieldError field message) = Some field"
| "error_field (NonFieldError message code) = None"


section \<open>Booking.clean\<close>

definition future_time :: "env \<Rightarrow> datetime" where
  "future_time e = now e - timedelta_seconds 20"

text \<open>
  \<^verbatim>\<open>Booking.objects.filter(service_id = self.service_id, start_time__lt = self.end_time,
  end_time__gt = self.start_time).exclude(id = self.id)\<close>
\<close>

definition overlapping_bookings :: "env \<Rightarrow> booking \<Rightarrow> booking list" where
  "overlapping_bookings e self =
     filter (\<lambda>b. service_pk (service_id b) = service_pk (service_id self)
                \<and> start_time b < end_time self
                \<and> end_time b > start_time self
                \<and> id_pk b \<noteq> id_pk self)
       (booking_objects e)"

text \<open>\<^verbatim>\<open>Staff_Times.objects.filter(user = assigned_staff).first()\<close>\<close>

definition staff_times_first :: "env \<Rightarrow> nat \<Rightarrow> staff_times option" where
  "staff_times_first e assigned_staff =
     find (\<lambda>st. user st = assigned_staff) (staff_times_objects e)"

text \<open>\<^verbatim>\<open>day_times.get(key, "")\<close>\<close>

definition dict_get :: "day_times \<Rightarrow> string \<Rightarrow> string" where
  "dict_get d key = (case d key of None \<Rightarrow> [] | Some v \<Rightarrow> v)"

definition msg_before_end :: string where
  "msg_before_end = ''Start time must be before end time.''"

definition msg_future :: string where
  "msg_future = ''Start time must be at least 20 seconds in the future.''"

definition msg_overlap :: string where
  "msg_overlap = ''This booking overlaps with an existing booking for the same service.''"

definition msg_no_staff :: string where
  "msg_no_staff = ''No staff is assigned to this service.''"

definition msg_no_hours :: string where
  "msg_no_hours = ''Working hours for the assigned staff are not defined.''"

definition msg_no_day :: string where
  "msg_no_day = ''Working hours for this day are not defined.''"

definition msg_incomplete :: string where
  "msg_incomplete = ''Working hours are incomplete for this day.''"

definition msg_outside :: string where
  "msg_outside = ''Booking times must be within the working hours of the assigned staff.''"

definition msg_status :: "env \<Rightarrow> string" where
  "msg_status e = ''The status of the booking must be: '' @ available_choices e @ '' .''"

text \<open>
  \<^verbatim>\<open>Booking.clean\<close>: \<open>Inl x\<close> when the exception \<open>x\<close> is raised, \<open>Inr ()\<close> when the
  method returns. The final \<^verbatim>\<open>super().clean()\<close> is the empty hook of the framework's
  base model.
\<close>

definition clean :: "env \<Rightarrow> booking \<Rightarrow> exn + unit" where
  "clean e self =
    (if start_time self \<ge> end_time self then
       Inl (ValidationError (FieldError ''start_time'' msg_before_end))
     else if start_time self < future_time e then
       Inl (ValidationError (FieldError ''start_time'' msg_future))
     else if overlapping_bookings e self \<noteq> [] then
       Inl (ValidationError (FieldError ''start_time'' msg_overlap))
     else
       (case assigned_staffs (service_id self) of
          None \<Rightarrow> Inl (ValidationError (FieldError ''service_id'' msg_no_staff))
        | Some assigned_staff \<Rightarrow>
       (case staff_times_first e assigned_staff of
          None \<Rightarrow> Inl (ValidationError (FieldError ''service_id'' msg_no_hours))
        | Some staff_times \<Rightarrow>
       (let day_of_week = strftime_A_lower (start_time self) in
        case working_hours staff_times day_of_week of
          None \<Rightarrow> Inl (ValidationError (FieldError ''start_time'' msg_no_day))
        | Some day_times \<Rightarrow>
       (let start_str = dict_get day_times ''start'';
            end_str = dict_get day_times ''end''
        in
        if start_str = [] \<or> end_str = [] then
          Inl (ValidationError (FieldError ''start_time'' msg_incomplete))
        else
          (case strptime_I_M_p start_str of
             None \<Rightarrow> Inl ValueError
           | Some start_time' \<Rightarrow>
          (case strptime_I_M_p end_str of
             None \<Rightarrow> Inl ValueError
           | Some end_time' \<Rightarrow>
          (let booking_start_time = time_of (start_time self);
               booking_end_time = time_of (end_time self)
           in
           if \<not> (start_time' \<le> booking_start_time \<and> booking_start_time \<le> end_time')
              \<or> \<not> (start_time' \<le> booking_end_time \<and> booking_end_time \<le> end_time')
           then Inl (ValidationError (FieldError ''start_time'' msg_outside))
           else if payment_status self \<notin> set (order_status_values e) then
             Inl (ValidationError (NonFieldError (msg_status e) ''invalid''))
           else Inr ()))))))))"


section \<open>A concrete shop\<close>

text \<open>
  One service, assigned to staff member 7, who works on Mondays from 09:00AM to 05:00PM; one
  booking in the database, on Monday 2024-01-01 from 11:00 to 12:00; the clock at 07:00 of
  that day. The payment statuses are the examples the specification names.
\<close>

definition ex_service :: service where
  "ex_service = \<lparr>service_pk = 1, assigned_staffs = Some 7\<rparr>"

definition ex_booking :: "datetime \<Rightarrow> datetime \<Rightarrow> booking" where
  "ex_booking s t =
     \<lparr>id_pk = None, start_time = s, end_time = t, booked_by = 3, service_id = ex_service,
      main_id = 1, branch_id = 1, is_canceled = False, payment_status = ''pending''\<rparr>"

definition ex_existing :: booking where
  "ex_existing =
     (ex_booking (datetime_of 2024 1 1 11 0 0) (datetime_of 2024 1 1 12 0 0))
       \<lparr>id_pk := Some 1\<rparr>"

definition ex_hours :: "string \<Rightarrow> string \<Rightarrow> string \<rightharpoonup> day_times" where
  "ex_hours s t = [''monday'' \<mapsto> [''start'' \<mapsto> s, ''end'' \<mapsto> t]]"

definition ex_staff_times :: staff_times where
  "ex_staff_times = \<lparr>user = 7, working_hours = ex_hours ''09:00AM'' ''05:00PM''\<rparr>"

definition ex_env :: env where
  "ex_env =
     \<lparr>now = datetime_of 2024 1 1 7 0 0,
      booking_objects = [ex_existing],
      staff_times_objects = [ex_staff_times],
      order_status_values = [''pending'', ''paid'', ''failed''],
      available_choices = ''pending, paid, failed''\<rparr>"


section \<open>Evaluation and auxiliary facts\<close>

lemmas dt_defs = datetime_of_def ymd2ord_def days_before_year_def days_before_month_def
  is_leap_def us_per_day_def timedelta_seconds_def time_hm_def time_of_def toordinal_def
  weekday_def weekday_names_def strftime_A_lower_def

lemmas re_defs = strptime_I_M_p_def format_regex_match_def re_I_def re_colon_def re_M_def
  re_p_def int_of_digits_def

lemmas msg_defs = msg_before_end_def msg_future_def msg_overlap_def msg_no_staff_def
  msg_no_hours_def msg_no_day_def msg_incomplete_def msg_outside_def

lemmas ex_defs = ex_service_def ex_booking_def ex_existing_def ex_hours_def
  ex_staff_times_def ex_env_def

lemma strptime_Nil: "strptime_I_M_p [] = None"
  by (simp add: re_defs)

lemma strptime_0900AM: "strptime_I_M_p ''09:00AM'' = Some (time_hm 9 0)"
  by (simp add: re_defs time_hm_def)

lemma strptime_0500PM: "strptime_I_M_p ''05:00PM'' = Some (time_hm 17 0)"
  by (simp add: re_defs time_hm_def)

lemma strptime_1700: "strptime_I_M_p ''17:00'' = None"
  by (simp add: re_defs)

lemma ex_accept: "clean ex_env (ex_booking (datetime_of 2024 1 1 10 0 0) (datetime_of 2024 1 1 10 30 0)) = Inr ()"
  by (simp add: clean_def future_time_def overlapping_bookings_def staff_times_first_def dict_get_def ex_defs dt_defs strptime_0900AM strptime_0500PM)

lemma find_map_comm: "(\<And>x. P (f x) = P x) \<Longrightarrow> find P (map f xs) = map_option f (find P xs)"
  by (induction xs) simp_all

lemma filter_map_empty: "(\<And>x. P (f x) = P x) \<Longrightarrow> (filter P (map f xs) = []) = (filter P xs = [])"
  by (induction xs) simp_all

lemma time_of_add_days: "time_of (t + k * us_per_day) = time_of t"
  by (simp add: time_of_def)

text \<open>
  When the checks before the working-hours comparison pass, \<open>clean\<close> is decided by that
  comparison and the payment status alone.
\<close>

lemma clean_at_hours_check:
  assumes "start_time self < end_time self"
    and "now e - timedelta_seconds 20 \<le> start_time self"
    and "overlapping_bookings e self = []"
    and "assigned_staffs (service_id self) = Some u"
    and "staff_times_first e u = Some st"
    and "working_hours st (strftime_A_lower (start_time self)) = Some dt"
    and "dt ''start'' = Some ss" and "dt ''end'' = Some es"
    and "strptime_I_M_p ss = Some day_start" and "strptime_I_M_p es = Some day_end"
  shows "clean e self =
    (if \<not> (day_start \<le> time_of (start_time self) \<and> time_of (start_time self) \<le> day_end)
        \<or> \<not> (day_start \<le> time_of (end_time self) \<and> time_of (end_time self) \<le> day_end)
     then Inl (ValidationError (FieldError ''start_time'' msg_outside))
     else if payment_status self \<notin> set (order_status_values e)
     then Inl (ValidationError (NonFieldError (msg_status e) ''invalid''))
     else Inr ())"
proof -
  have "ss \<noteq> []" and "es \<noteq> []"
    using assms(9,10) strptime_Nil by auto
  then show ?thesis
    using assms by (simp add: clean_def future_time_def dict_get_def Let_def)
qed

section \<open>Properties of Booking.clean\<close>

text \<open>
  Claim C6. A booking whose start time is not before its end time is rejected with the
  \<^verbatim>\<open>start_time\<close> error of the first check, whatever the rest of the data; hence a booking
  on which \<open>clean\<close> returns has its start time strictly before its end time.
\<close>

theorem clean_start_before_end:
  "(start_time self \<ge> end_time self \<longrightarrow>
      clean e self = Inl (ValidationError (FieldError ''start_time'' msg_before_end)))
   \<and> (clean e self = Inr () \<longrightarrow> start_time self < end_time self)"
  by (simp add: clean_def)

theorem clean_start_before_end_witness:
  "end_time (ex_booking (datetime_of 2024 1 1 11 45 0) (datetime_of 2024 1 1 11 15 0)) \<le> start_time (ex_booking (datetime_of 2024 1 1 11 45 0) (datetime_of 2024 1 1 11 15 0))
   \<and> clean ex_env (ex_booking (datetime_of 2024 1 1 11 45 0) (datetime_of 2024 1 1 11 15 0)) = Inl (ValidationError (FieldError ''start_time'' msg_before_end))
   \<and> clean ex_env (ex_booking (datetime_of 2024 1 1 10 0 0) (datetime_of 2024 1 1 10 30 0)) = Inr ()
   \<and> start_time (ex_booking (datetime_of 2024 1 1 10 0 0) (datetime_of 2024 1 1 10 30 0)) < end_time (ex_booking (datetime_of 2024 1 1 10 0 0) (datetime_of 2024 1 1 10 30 0))"
  using clean_start_before_end [where self = "(ex_booking (datetime_of 2024 1 1 11 45 0) (datetime_of 2024 1 1 11 15 0))" and e = ex_env]
    clean_start_before_end [where self = "(ex_booking (datetime_of 2024 1 1 10 0 0) (datetime_of 2024 1 1 10 30 0))" and e = ex_env] ex_accept
  by (simp add: ex_booking_def dt_defs)

text \<open>
  Claim C5. For a booking with \<open>start_time < end_time\<close>: when the start time is strictly
  earlier than the current time minus 20 seconds, \<open>clean\<close> raises the \<^verbatim>\<open>start_time\<close> error
  of the 20-second check; when it is at or after the current time minus 20 seconds, that
  error is not raised (the check passes).
\<close>

theorem clean_window:
  assumes "start_time self < end_time self"
  shows "(start_time self < now e - timedelta_seconds 20 \<longrightarrow>
           clean e self = Inl (ValidationError (FieldError ''start_time'' msg_future)))
       \<and> (now e - timedelta_seconds 20 \<le> start_time self \<longrightarrow>
           clean e self \<noteq> Inl (ValidationError (FieldError ''start_time'' msg_future)))"
  using assms
  by (simp add: clean_def future_time_def Let_def msg_defs split: option.split)

theorem clean_window_witness:
  "start_time (ex_booking (datetime_of 2024 1 1 6 59 39) (datetime_of 2024 1 1 10 0 0)) < end_time (ex_booking (datetime_of 2024 1 1 6 59 39) (datetime_of 2024 1 1 10 0 0))
   \<and> start_time (ex_booking (datetime_of 2024 1 1 6 59 39) (datetime_of 2024 1 1 10 0 0)) < now ex_env - timedelta_seconds 20
   \<and> clean ex_env (ex_booking (datetime_of 2024 1 1 6 59 39) (datetime_of 2024 1 1 10 0 0)) = Inl (ValidationError (FieldError ''start_time'' msg_future))
   \<and> start_time (ex_booking (datetime_of 2024 1 1 6 59 40) (datetime_of 2024 1 1 9 0 0)) < end_time (ex_booking (datetime_of 2024 1 1 6 59 40) (datetime_of 2024 1 1 9 0 0))
   \<and> now ex_env - timedelta_seconds 20 \<le> start_time (ex_booking (datetime_of 2024 1 1 6 59 40) (datetime_of 2024 1 1 9 0 0))
   \<and> clean ex_env (ex_booking (datetime_of 2024 1 1 6 59 40) (datetime_of 2024 1 1 9 0 0)) \<noteq> Inl (ValidationError (FieldError ''start_time'' msg_future))"
  using clean_window [where self = "(ex_booking (datetime_of 2024 1 1 6 59 39) (datetime_of 2024 1 1 10 0 0))" and e = ex_env]
    clean_window [where self = "(ex_booking (datetime_of 2024 1 1 6 59 40) (datetime_of 2024 1 1 9 0 0))" and e = ex_env]
  by (simp add: ex_booking_def ex_env_def dt_defs)

text \<open>
  Claim C1, as the code has it. For a booking that passes the start/end and the 20-second
  checks, \<open>clean\<close> raises the \<^verbatim>\<open>start_time\<close> error of the overlap check if and only if
  some row of the bookings table for the same service, with a primary key other than the
  booking's own, has \<open>start_time < self.end_time\<close> and \<open>end_time > self.start_time\<close>.
  A row that merely touches the booking (its end is the booking's start, or its start is the
  booking's end) is never among the overlapping bookings. A booking that overlaps nothing may
  still be rejected by a later check, three of which also attach their error to
  \<^verbatim>\<open>start_time\<close>.
\<close>

theorem clean_overlap_iff:
  assumes "start_time self < end_time self"
    and "now e - timedelta_seconds 20 \<le> start_time self"
  shows "(clean e self = Inl (ValidationError (FieldError ''start_time'' msg_overlap))
          \<longleftrightarrow> (\<exists>b \<in> set (booking_objects e).
                 service_pk (service_id b) = service_pk (service_id self)
               \<and> id_pk b \<noteq> id_pk self
               \<and> start_time b < end_time self \<and> end_time b > start_time self))
       \<and> (\<forall>b. end_time b = start_time self \<or> start_time b = end_time self
              \<longrightarrow> b \<notin> set (overlapping_bookings e self))"
proof -
  have ne: "(overlapping_bookings e self \<noteq> []) =
        (\<exists>b \<in> set (booking_objects e).
                 service_pk (service_id b) = service_pk (service_id self)
               \<and> id_pk b \<noteq> id_pk self
               \<and> start_time b < end_time self \<and> end_time b > start_time self)"
    by (auto simp add: overlapping_bookings_def filter_empty_conv)
  have touch: "\<forall>b. end_time b = start_time self \<or> start_time b = end_time self
              \<longrightarrow> b \<notin> set (overlapping_bookings e self)"
    by (auto simp add: overlapping_bookings_def)
  have "clean e self = Inl (ValidationError (FieldError ''start_time'' msg_overlap))
          \<longleftrightarrow> overlapping_bookings e self \<noteq> []"
    using assms
    by (simp add: clean_def future_time_def Let_def msg_defs split: option.split)
  with ne touch show ?thesis by simp
qed

theorem clean_overlap_iff_witness:
  "clean ex_env (ex_booking (datetime_of 2024 1 1 11 30 0) (datetime_of 2024 1 1 12 30 0)) = Inl (ValidationError (FieldError ''start_time'' msg_overlap))
   \<and> end_time ex_existing = start_time (ex_booking (datetime_of 2024 1 1 12 0 0) (datetime_of 2024 1 1 12 30 0))
   \<and> ex_existing \<notin> set (overlapping_bookings ex_env (ex_booking (datetime_of 2024 1 1 12 0 0) (datetime_of 2024 1 1 12 30 0)))
   \<and> clean ex_env (ex_booking (datetime_of 2024 1 1 12 0 0) (datetime_of 2024 1 1 12 30 0)) \<noteq> Inl (ValidationError (FieldError ''start_time'' msg_overlap))"
  using clean_overlap_iff [where self = "(ex_booking (datetime_of 2024 1 1 11 30 0) (datetime_of 2024 1 1 12 30 0))" and e = ex_env]
    clean_overlap_iff [where self = "(ex_booking (datetime_of 2024 1 1 12 0 0) (datetime_of 2024 1 1 12 30 0))" and e = ex_env]
  by (simp add: ex_defs dt_defs)

text \<open>
  Claim C1 as stated fails in its only-if direction: on Monday 2024-01-01 a booking from
  08:00 to 08:30 passes the first two checks and overlaps no stored booking, and is rejected
  with a \<^verbatim>\<open>start_time\<close> error all the same, that of the working-hours comparison.
\<close>

theorem clean_start_time_error_without_overlap:
  "start_time (ex_booking (datetime_of 2024 1 1 8 0 0) (datetime_of 2024 1 1 8 30 0)) < end_time (ex_booking (datetime_of 2024 1 1 8 0 0) (datetime_of 2024 1 1 8 30 0))
   \<and> now ex_env - timedelta_seconds 20 \<le> start_time (ex_booking (datetime_of 2024 1 1 8 0 0) (datetime_of 2024 1 1 8 30 0))
   \<and> booking_objects ex_env = [ex_existing]
   \<and> \<not> (start_time ex_existing < end_time (ex_booking (datetime_of 2024 1 1 8 0 0) (datetime_of 2024 1 1 8 30 0))
         \<and> end_time ex_existing > start_time (ex_booking (datetime_of 2024 1 1 8 0 0) (datetime_of 2024 1 1 8 30 0)))
   \<and> clean ex_env (ex_booking (datetime_of 2024 1 1 8 0 0) (datetime_of 2024 1 1 8 30 0)) = Inl (ValidationError (FieldError ''start_time'' msg_outside))"
  by (simp add: clean_def future_time_def overlapping_bookings_def staff_times_first_def
      dict_get_def ex_defs dt_defs strptime_0900AM strptime_0500PM)

text \<open>
  Claim C8. When the first three checks pass, a booking whose service has no assigned staff
  is rejected with a \<^verbatim>\<open>service_id\<close> error, and so is a booking whose assigned staff has no
  row in the working-hours table.
\<close>

theorem clean_no_staff:
  assumes "start_time self < end_time self"
    and "now e - timedelta_seconds 20 \<le> start_time self"
    and "overlapping_bookings e self = []"
  shows "(assigned_staffs (service_id self) = None \<longrightarrow>
            clean e self = Inl (ValidationError (FieldError ''service_id'' msg_no_staff)))
       \<and> (\<forall>u. assigned_staffs (service_id self) = Some u
               \<and> (\<forall>st \<in> set (staff_times_objects e). user st \<noteq> u) \<longrightarrow>
            clean e self = Inl (ValidationError (FieldError ''service_id'' msg_no_hours)))"
proof -
  have none: "staff_times_first e u = None"
    if "\<forall>st \<in> set (staff_times_objects e). user st \<noteq> u" for u
    using that by (simp add: staff_times_first_def find_None_iff)
  show ?thesis
    using assms none by (simp add: clean_def future_time_def)
qed

theorem clean_no_staff_witness:
  "clean ex_env ((ex_booking (datetime_of 2024 1 1 10 0 0) (datetime_of 2024 1 1 10 30 0))\<lparr>service_id := ex_service\<lparr>assigned_staffs := None\<rparr>\<rparr>)
     = Inl (ValidationError (FieldError ''service_id'' msg_no_staff))
   \<and> clean ex_env ((ex_booking (datetime_of 2024 1 1 10 0 0) (datetime_of 2024 1 1 10 30 0))\<lparr>service_id := ex_service\<lparr>assigned_staffs := Some 8\<rparr>\<rparr>)
     = Inl (ValidationError (FieldError ''service_id'' msg_no_hours))"
  using clean_no_staff [where self = "(ex_booking (datetime_of 2024 1 1 10 0 0) (datetime_of 2024 1 1 10 30 0))\<lparr>service_id := ex_service\<lparr>assigned_staffs := None\<rparr>\<rparr>"
      and e = ex_env]
    clean_no_staff [where self = "(ex_booking (datetime_of 2024 1 1 10 0 0) (datetime_of 2024 1 1 10 30 0))\<lparr>service_id := ex_service\<lparr>assigned_staffs := Some 8\<rparr>\<rparr>"
      and e = ex_env]
  by (simp add: overlapping_bookings_def ex_defs dt_defs)

text \<open>
  Claim C9. The overlap check does not look at \<^verbatim>\<open>is_canceled\<close>. A booking that overlaps a
  canceled booking of the same service is rejected; when the first two checks pass the error
  is that of the overlap check; and the outcome is the one obtained with every stored booking
  marked as not canceled.
\<close>

theorem clean_overlap_canceled:
  assumes "b \<in> set (booking_objects e)"
    and "is_canceled b"
    and "service_pk (service_id b) = service_pk (service_id self)"
    and "id_pk b \<noteq> id_pk self"
    and "start_time b < end_time self" and "end_time b > start_time self"
  shows "(\<exists>x. clean e self = Inl x)
       \<and> (start_time self < end_time self \<and> now e - timedelta_seconds 20 \<le> start_time self \<longrightarrow>
            clean e self = Inl (ValidationError (FieldError ''start_time'' msg_overlap)))
       \<and> clean (e\<lparr>booking_objects := map (\<lambda>b. b\<lparr>is_canceled := False\<rparr>) (booking_objects e)\<rparr>) self
           = clean e self"
proof -
  have ne: "overlapping_bookings e self \<noteq> []"
    using assms by (auto simp add: overlapping_bookings_def filter_empty_conv)
  have same: "(overlapping_bookings
         (e\<lparr>booking_objects := map (\<lambda>b. b\<lparr>is_canceled := False\<rparr>) (booking_objects e)\<rparr>) self = [])
       = (overlapping_bookings e self = [])"
    unfolding overlapping_bookings_def by (simp add: filter_map_empty)
  have 1: "\<exists>x. clean e self = Inl x"
    using ne by (simp add: clean_def)
  have 2: "start_time self < end_time self \<and> now e - timedelta_seconds 20 \<le> start_time self \<longrightarrow>
            clean e self = Inl (ValidationError (FieldError ''start_time'' msg_overlap))"
    using ne by (simp add: clean_def future_time_def)
  have 3: "clean (e\<lparr>booking_objects := map (\<lambda>b. b\<lparr>is_canceled := False\<rparr>) (booking_objects e)\<rparr>) self
           = clean e self"
    using ne same by (simp add: clean_def future_time_def)
  from 1 2 3 show ?thesis by simp
qed

theorem clean_overlap_canceled_witness:
  "is_canceled (ex_existing\<lparr>is_canceled := True\<rparr>)
   \<and> clean (ex_env\<lparr>booking_objects := [ex_existing\<lparr>is_canceled := True\<rparr>]\<rparr>) (ex_booking (datetime_of 2024 1 1 11 30 0) (datetime_of 2024 1 1 12 30 0))
     = Inl (ValidationError (FieldError ''start_time'' msg_overlap))"
  using clean_overlap_canceled [where b = "ex_existing\<lparr>is_canceled := True\<rparr>"
      and e = "ex_env\<lparr>booking_objects := [ex_existing\<lparr>is_canceled := True\<rparr>]\<rparr>"
      and self = "(ex_booking (datetime_of 2024 1 1 11 30 0) (datetime_of 2024 1 1 12 30 0))"]
  by (simp add: ex_defs dt_defs)

text \<open>
  Claim C4. A booking that reaches the working-hours comparison (the earlier checks pass and
  both strings of the weekday's entry parse) passes it if and only if the clock times of its
  start and of its end both lie in the closed interval from the parsed day start to the parsed
  day end. With Monday hours 09:00AM to 05:00PM, a Monday booking from 10:00 to 10:30 passes
  and one from 08:00 to 08:30 is rejected.
\<close>

theorem clean_within_hours:
  assumes "start_time self < end_time self"
    and "now e - timedelta_seconds 20 \<le> start_time self"
    and "overlapping_bookings e self = []"
    and "assigned_staffs (service_id self) = Some u"
    and "staff_times_first e u = Some st"
    and "working_hours st (strftime_A_lower (start_time self)) = Some dt"
    and "dt ''start'' = Some ss" and "dt ''end'' = Some es"
    and "strptime_I_M_p ss = Some day_start" and "strptime_I_M_p es = Some day_end"
  shows "(clean e self \<noteq> Inl (ValidationError (FieldError ''start_time'' msg_outside))
          \<longleftrightarrow> day_start \<le> time_of (start_time self) \<and> time_of (start_time self) \<le> day_end
             \<and> day_start \<le> time_of (end_time self) \<and> time_of (end_time self) \<le> day_end)
       \<and> (strftime_A_lower (start_time self) = ''monday''
            \<and> ss = ''09:00AM'' \<and> es = ''05:00PM''
            \<and> time_of (start_time self) = time_hm 10 0 \<and> time_of (end_time self) = time_hm 10 30
          \<longrightarrow> clean e self \<noteq> Inl (ValidationError (FieldError ''start_time'' msg_outside)))
       \<and> (strftime_A_lower (start_time self) = ''monday''
            \<and> ss = ''09:00AM'' \<and> es = ''05:00PM''
            \<and> time_of (start_time self) = time_hm 8 0 \<and> time_of (end_time self) = time_hm 8 30
          \<longrightarrow> clean e self = Inl (ValidationError (FieldError ''start_time'' msg_outside)))"
proof -
  note eq = clean_at_hours_check [OF assms]
  have a: "clean e self \<noteq> Inl (ValidationError (FieldError ''start_time'' msg_outside))
          \<longleftrightarrow> day_start \<le> time_of (start_time self) \<and> time_of (start_time self) \<le> day_end
             \<and> day_start \<le> time_of (end_time self) \<and> time_of (end_time self) \<le> day_end"
    unfolding eq by auto
  have b: "ss = ''09:00AM'' \<and> es = ''05:00PM''
            \<and> time_of (start_time self) = time_hm 10 0 \<and> time_of (end_time self) = time_hm 10 30
          \<longrightarrow> clean e self \<noteq> Inl (ValidationError (FieldError ''start_time'' msg_outside))"
    using assms(9,10) unfolding a by (auto simp add: strptime_0900AM strptime_0500PM time_hm_def)
  have c: "ss = ''09:00AM'' \<and> es = ''05:00PM''
            \<and> time_of (start_time self) = time_hm 8 0 \<and> time_of (end_time self) = time_hm 8 30
          \<longrightarrow> clean e self = Inl (ValidationError (FieldError ''start_time'' msg_outside))"
    using assms(9,10) a by (auto simp add: strptime_0900AM strptime_0500PM time_hm_def)
  from a b c show ?thesis by blast
qed

theorem clean_within_hours_witness:
  "clean ex_env (ex_booking (datetime_of 2024 1 1 10 0 0) (datetime_of 2024 1 1 10 30 0)) \<noteq> Inl (ValidationError (FieldError ''start_time'' msg_outside))
   \<and> clean ex_env (ex_booking (datetime_of 2024 1 1 8 0 0) (datetime_of 2024 1 1 8 30 0)) = Inl (ValidationError (FieldError ''start_time'' msg_outside))"
  using clean_within_hours [where self = "(ex_booking (datetime_of 2024 1 1 10 0 0) (datetime_of 2024 1 1 10 30 0))" and e = ex_env and u = 7 and st = ex_staff_times
      and dt = "[''start'' \<mapsto> ''09:00AM'', ''end'' \<mapsto> ''05:00PM'']"
      and ss = "''09:00AM''" and es = "''05:00PM''"
      and day_start = "time_hm 9 0" and day_end = "time_hm 17 0"]
    clean_within_hours [where self = "(ex_booking (datetime_of 2024 1 1 8 0 0) (datetime_of 2024 1 1 8 30 0))" and e = ex_env and u = 7 and st = ex_staff_times
      and dt = "[''start'' \<mapsto> ''09:00AM'', ''end'' \<mapsto> ''05:00PM'']"
      and ss = "''09:00AM''" and es = "''05:00PM''"
      and day_start = "time_hm 9 0" and day_end = "time_hm 17 0"]
  by (simp add: overlapping_bookings_def staff_times_first_def dict_get_def ex_defs dt_defs strptime_0900AM strptime_0500PM)

text \<open>
  Claim C10. The working-hours comparison reads the weekday of the start time and the clock
  times of start and end, never the dates. For a booking that reaches the comparison:
  if it ends on a later day than it starts and both clock times lie in the start day's range,
  it passes; moving the end by whole days does not change the outcome of \<open>clean\<close> (as long
  as no stored booking overlaps the longer interval); the entries of the other weekdays do not
  matter; it passes if and only if both clock times lie in the range parsed from the entry of
  the start's weekday; and any other booking for the same staff that gets as far, starts on
  the same weekday and has the same two clock times, whatever its dates, passes or fails the
  comparison alike, with the same outcome of \<open>clean\<close> when the payment status is the same.
\<close>

theorem clean_hours_ignore_dates:
  assumes "start_time self < end_time self"
    and "now e - timedelta_seconds 20 \<le> start_time self"
    and "overlapping_bookings e self = []"
    and "assigned_staffs (service_id self) = Some u"
    and "staff_times_first e u = Some st"
    and "working_hours st (strftime_A_lower (start_time self)) = Some dt"
    and "dt ''start'' = Some ss" and "dt ''end'' = Some es"
    and "strptime_I_M_p ss = Some day_start" and "strptime_I_M_p es = Some day_end"
  shows "(toordinal (start_time self) < toordinal (end_time self)
            \<and> day_start \<le> time_of (start_time self) \<and> time_of (start_time self) \<le> day_end
            \<and> day_start \<le> time_of (end_time self) \<and> time_of (end_time self) \<le> day_end
          \<longrightarrow> clean e self \<noteq> Inl (ValidationError (FieldError ''start_time'' msg_outside)))
       \<and> (\<forall>k \<ge> 0. overlapping_bookings e (self\<lparr>end_time := end_time self + k * us_per_day\<rparr>) = []
          \<longrightarrow> clean e (self\<lparr>end_time := end_time self + k * us_per_day\<rparr>) = clean e self)
       \<and> (\<forall>d x. d \<noteq> strftime_A_lower (start_time self)
          \<longrightarrow> clean (e\<lparr>staff_times_objects :=
                          map (\<lambda>r. r\<lparr>working_hours := (working_hours r)(d := x)\<rparr>)
                            (staff_times_objects e)\<rparr>) self
              = clean e self)
       \<and> (clean e self \<noteq> Inl (ValidationError (FieldError ''start_time'' msg_outside))
          \<longleftrightarrow> day_start \<le> time_of (start_time self) \<and> time_of (start_time self) \<le> day_end
             \<and> day_start \<le> time_of (end_time self) \<and> time_of (end_time self) \<le> day_end)
       \<and> (\<forall>other.
            start_time other < end_time other
            \<and> now e - timedelta_seconds 20 \<le> start_time other
            \<and> overlapping_bookings e other = []
            \<and> assigned_staffs (service_id other) = Some u
            \<and> weekday (start_time other) = weekday (start_time self)
            \<and> time_of (start_time other) = time_of (start_time self)
            \<and> time_of (end_time other) = time_of (end_time self)
          \<longrightarrow> (clean e other = Inl (ValidationError (FieldError ''start_time'' msg_outside))
                \<longleftrightarrow> clean e self = Inl (ValidationError (FieldError ''start_time'' msg_outside)))
              \<and> (payment_status other = payment_status self \<longrightarrow> clean e other = clean e self))"
proof -
  note eq = clean_at_hours_check [OF assms]
  have a: "toordinal (start_time self) < toordinal (end_time self)
            \<and> day_start \<le> time_of (start_time self) \<and> time_of (start_time self) \<le> day_end
            \<and> day_start \<le> time_of (end_time self) \<and> time_of (end_time self) \<le> day_end
          \<longrightarrow> clean e self \<noteq> Inl (ValidationError (FieldError ''start_time'' msg_outside))"
    unfolding eq by auto
  have b: "clean e (self\<lparr>end_time := end_time self + k * us_per_day\<rparr>) = clean e self"
    if k: "0 \<le> k"
      and ov: "overlapping_bookings e (self\<lparr>end_time := end_time self + k * us_per_day\<rparr>) = []"
    for k
  proof -
    let ?self' = "self\<lparr>end_time := end_time self + k * us_per_day\<rparr>"
    have "0 \<le> k * us_per_day"
      using k by (simp add: us_per_day_def)
    then have lt: "start_time ?self' < end_time ?self'"
      using assms(1) by simp
    have "clean e ?self' =
      (if \<not> (day_start \<le> time_of (start_time ?self') \<and> time_of (start_time ?self') \<le> day_end)
          \<or> \<not> (day_start \<le> time_of (end_time ?self') \<and> time_of (end_time ?self') \<le> day_end)
       then Inl (ValidationError (FieldError ''start_time'' msg_outside))
       else if payment_status ?self' \<notin> set (order_status_values e)
       then Inl (ValidationError (NonFieldError (msg_status e) ''invalid''))
       else Inr ())"
      using lt ov assms(2,4-10)
      by (intro clean_at_hours_check [where u = u and st = st and dt = dt and ss = ss and es = es])
        simp_all
    then show ?thesis
      unfolding eq by (simp add: time_of_add_days)
  qed
  have c: "clean (e\<lparr>staff_times_objects :=
                          map (\<lambda>r. r\<lparr>working_hours := (working_hours r)(d := x)\<rparr>)
                            (staff_times_objects e)\<rparr>) self
              = clean e self"
    if d: "d \<noteq> strftime_A_lower (start_time self)" for d x
  proof -
    let ?f = "\<lambda>r. r\<lparr>working_hours := (working_hours r)(d := x)\<rparr>"
    let ?e' = "e\<lparr>staff_times_objects := map ?f (staff_times_objects e)\<rparr>"
    have st': "staff_times_first ?e' u = Some (?f st)"
      using assms(5) by (simp add: staff_times_first_def find_map_comm)
    have wh: "working_hours (?f st) (strftime_A_lower (start_time self)) = Some dt"
      using assms(6) d by simp
    have ov: "overlapping_bookings ?e' self = []"
      using assms(3) by (simp add: overlapping_bookings_def)
    have "clean ?e' self =
      (if \<not> (day_start \<le> time_of (start_time self) \<and> time_of (start_time self) \<le> day_end)
          \<or> \<not> (day_start \<le> time_of (end_time self) \<and> time_of (end_time self) \<le> day_end)
       then Inl (ValidationError (FieldError ''start_time'' msg_outside))
       else if payment_status self \<notin> set (order_status_values ?e')
       then Inl (ValidationError (NonFieldError (msg_status ?e') ''invalid''))
       else Inr ())"
      using assms(1,2,4,7-10) ov st' wh
      by (intro clean_at_hours_check [where u = u and st = "?f st" and dt = dt and ss = ss and es = es])
        simp_all
    then show ?thesis
      unfolding eq by (simp add: msg_status_def)
  qed
  have d: "clean e self \<noteq> Inl (ValidationError (FieldError ''start_time'' msg_outside))
          \<longleftrightarrow> day_start \<le> time_of (start_time self) \<and> time_of (start_time self) \<le> day_end
             \<and> day_start \<le> time_of (end_time self) \<and> time_of (end_time self) \<le> day_end"
    unfolding eq by auto
  have f: "(clean e other = Inl (ValidationError (FieldError ''start_time'' msg_outside))
                \<longleftrightarrow> clean e self = Inl (ValidationError (FieldError ''start_time'' msg_outside)))
              \<and> (payment_status other = payment_status self \<longrightarrow> clean e other = clean e self)"
    if o: "start_time other < end_time other"
       "now e - timedelta_seconds 20 \<le> start_time other"
       "overlapping_bookings e other = []"
       "assigned_staffs (service_id other) = Some u"
      and wd: "weekday (start_time other) = weekday (start_time self)"
      and ts: "time_of (start_time other) = time_of (start_time self)"
      and te: "time_of (end_time other) = time_of (end_time self)"
    for other
  proof -
    have wh: "working_hours st (strftime_A_lower (start_time other)) = Some dt"
      using assms(6) wd by (simp add: strftime_A_lower_def)
    have "clean e other =
      (if \<not> (day_start \<le> time_of (start_time other) \<and> time_of (start_time other) \<le> day_end)
          \<or> \<not> (day_start \<le> time_of (end_time other) \<and> time_of (end_time other) \<le> day_end)
       then Inl (ValidationError (FieldError ''start_time'' msg_outside))
       else if payment_status other \<notin> set (order_status_values e)
       then Inl (ValidationError (NonFieldError (msg_status e) ''invalid''))
       else Inr ())"
      using o wh assms(5,7-10)
      by (intro clean_at_hours_check [where u = u and st = st and dt = dt and ss = ss and es = es])
        simp_all
    then show ?thesis
      unfolding eq by (auto simp add: ts te)
  qed
  from a b c d f show ?thesis by blast
qed

theorem clean_hours_ignore_dates_witness:
  "toordinal (start_time (ex_booking (datetime_of 2024 1 1 10 0 0) (datetime_of 2024 1 3 10 30 0))) < toordinal (end_time (ex_booking (datetime_of 2024 1 1 10 0 0) (datetime_of 2024 1 3 10 30 0)))
   \<and> clean (ex_env\<lparr>booking_objects := []\<rparr>) (ex_booking (datetime_of 2024 1 1 10 0 0) (datetime_of 2024 1 3 10 30 0)) \<noteq> Inl (ValidationError (FieldError ''start_time'' msg_outside))
   \<and> weekday (start_time (ex_booking (datetime_of 2024 1 8 10 0 0) (datetime_of 2024 1 8 10 30 0))) = weekday (start_time (ex_booking (datetime_of 2024 1 1 10 0 0) (datetime_of 2024 1 3 10 30 0)))
   \<and> clean (ex_env\<lparr>booking_objects := []\<rparr>) (ex_booking (datetime_of 2024 1 8 10 0 0) (datetime_of 2024 1 8 10 30 0))
     = clean (ex_env\<lparr>booking_objects := []\<rparr>) (ex_booking (datetime_of 2024 1 1 10 0 0) (datetime_of 2024 1 3 10 30 0))"
proof -
  let ?e = "ex_env\<lparr>booking_objects := []\<rparr>"
  let ?b = "(ex_booking (datetime_of 2024 1 1 10 0 0) (datetime_of 2024 1 3 10 30 0))"
  let ?o = "(ex_booking (datetime_of 2024 1 8 10 0 0) (datetime_of 2024 1 8 10 30 0))"
  let ?dt = "[''start'' \<mapsto> ''09:00AM'', ''end'' \<mapsto> ''05:00PM'']"
  have h1: "start_time ?b < end_time ?b"
    by (simp add: ex_booking_def dt_defs)
  have h2: "now ?e - timedelta_seconds 20 \<le> start_time ?b"
    by (simp add: ex_booking_def ex_env_def dt_defs)
  have h3: "overlapping_bookings ?e ?b = []"
    by (simp add: overlapping_bookings_def)
  have h4: "assigned_staffs (service_id ?b) = Some 7"
    by (simp add: ex_booking_def ex_service_def)
  have h5: "staff_times_first ?e 7 = Some ex_staff_times"
    by (simp add: staff_times_first_def ex_env_def ex_staff_times_def)
  have h6: "working_hours ex_staff_times (strftime_A_lower (start_time ?b)) = Some ?dt"
    by (simp add: ex_booking_def ex_staff_times_def ex_hours_def dt_defs)
  have h7: "?dt ''start'' = Some ''09:00AM''" and h8: "?dt ''end'' = Some ''05:00PM''"
    by simp_all
  note th = clean_hours_ignore_dates [OF h1 h2 h3 h4 h5 h6 h7 h8 strptime_0900AM strptime_0500PM]
  have span: "toordinal (start_time ?b) < toordinal (end_time ?b)"
    by (simp add: ex_booking_def dt_defs)
  have within: "time_hm 9 0 \<le> time_of (start_time ?b) \<and> time_of (start_time ?b) \<le> time_hm 17 0
      \<and> time_hm 9 0 \<le> time_of (end_time ?b) \<and> time_of (end_time ?b) \<le> time_hm 17 0"
    by (simp add: ex_booking_def dt_defs)
  have pass: "clean ?e ?b \<noteq> Inl (ValidationError (FieldError ''start_time'' msg_outside))"
    using th [THEN conjunct1] span within by blast
  have o1: "start_time ?o < end_time ?o"
    by (simp add: ex_booking_def dt_defs)
  have o2: "now ?e - timedelta_seconds 20 \<le> start_time ?o"
    by (simp add: ex_booking_def ex_env_def dt_defs)
  have o3: "overlapping_bookings ?e ?o = []"
    by (simp add: overlapping_bookings_def)
  have o4: "assigned_staffs (service_id ?o) = Some 7"
    by (simp add: ex_booking_def ex_service_def)
  have o5: "weekday (start_time ?o) = weekday (start_time ?b)"
    by (simp add: ex_booking_def dt_defs)
  have o6: "time_of (start_time ?o) = time_of (start_time ?b)"
    by (simp add: ex_booking_def dt_defs)
  have o7: "time_of (end_time ?o) = time_of (end_time ?b)"
    by (simp add: ex_booking_def dt_defs)
  have o8: "payment_status ?o = payment_status ?b"
    by (simp add: ex_booking_def)
  have same: "clean ?e ?o = clean ?e ?b"
    using th [THEN conjunct2, THEN conjunct2, THEN conjunct2, THEN conjunct2, THEN spec, of ?o]
      o1 o2 o3 o4 o5 o6 o7 o8
    by blast
  from span pass o5 same show ?thesis
    by (intro conjI)
qed

text \<open>
  Claim C7. The checks run in the order of the source and the first one that fails decides
  the exception: each line below assumes that the earlier checks pass and that one check
  fails, and says nothing about the later checks, which therefore cannot change the outcome.
  Between the test for incomplete strings and the working-hours comparison, a string that
  does not parse ends \<open>clean\<close> with the \<^verbatim>\<open>ValueError\<close> of \<^verbatim>\<open>strptime\<close>.
\<close>

theorem clean_check_order:
  "(let time_ok = (start_time self < end_time self
                    \<and> now e - timedelta_seconds 20 \<le> start_time self
                    \<and> overlapping_bookings e self = []);
        staff_ok = (time_ok \<and> assigned_staffs (service_id self) = Some u
                    \<and> staff_times_first e u = Some st);
        day_ok = (staff_ok \<and> working_hours st (strftime_A_lower (start_time self)) = Some dt
                    \<and> dict_get dt ''start'' \<noteq> [] \<and> dict_get dt ''end'' \<noteq> []);
        parse_ok = (day_ok \<and> strptime_I_M_p (dict_get dt ''start'') = Some day_start
                    \<and> strptime_I_M_p (dict_get dt ''end'') = Some day_end);
        within = (day_start \<le> time_of (start_time self) \<and> time_of (start_time self) \<le> day_end
                    \<and> day_start \<le> time_of (end_time self) \<and> time_of (end_time self) \<le> day_end)
    in
      (end_time self \<le> start_time self \<longrightarrow>
         clean e self = Inl (ValidationError (FieldError ''start_time'' msg_before_end)))
    \<and> (start_time self < end_time self \<and> start_time self < now e - timedelta_seconds 20 \<longrightarrow>
         clean e self = Inl (ValidationError (FieldError ''start_time'' msg_future)))
    \<and> (start_time self < end_time self \<and> now e - timedelta_seconds 20 \<le> start_time self
         \<and> overlapping_bookings e self \<noteq> [] \<longrightarrow>
         clean e self = Inl (ValidationError (FieldError ''start_time'' msg_overlap)))
    \<and> (time_ok \<and> assigned_staffs (service_id self) = None \<longrightarrow>
         clean e self = Inl (ValidationError (FieldError ''service_id'' msg_no_staff)))
    \<and> (time_ok \<and> assigned_staffs (service_id self) = Some u \<and> staff_times_first e u = None \<longrightarrow>
         clean e self = Inl (ValidationError (FieldError ''service_id'' msg_no_hours)))
    \<and> (staff_ok \<and> working_hours st (strftime_A_lower (start_time self)) = None \<longrightarrow>
         clean e self = Inl (ValidationError (FieldError ''start_time'' msg_no_day)))
    \<and> (staff_ok \<and> working_hours st (strftime_A_lower (start_time self)) = Some dt
         \<and> (dict_get dt ''start'' = [] \<or> dict_get dt ''end'' = []) \<longrightarrow>
         clean e self = Inl (ValidationError (FieldError ''start_time'' msg_incomplete)))
    \<and> (day_ok \<and> (strptime_I_M_p (dict_get dt ''start'') = None
                  \<or> strptime_I_M_p (dict_get dt ''end'') = None) \<longrightarrow>
         clean e self = Inl ValueError)
    \<and> (parse_ok \<and> \<not> within \<longrightarrow>
         clean e self = Inl (ValidationError (FieldError ''start_time'' msg_outside)))
    \<and> (parse_ok \<and> within \<and> payment_status self \<notin> set (order_status_values e) \<longrightarrow>
         clean e self = Inl (ValidationError (NonFieldError (msg_status e) ''invalid'')))
    \<and> (parse_ok \<and> within \<and> payment_status self \<in> set (order_status_values e) \<longrightarrow>
         clean e self = Inr ()))"
  unfolding Let_def
proof (intro conjI impI)
  show "clean e self = Inl ValueError"
    if "(((start_time self < end_time self
                    \<and> now e - timedelta_seconds 20 \<le> start_time self
                    \<and> overlapping_bookings e self = [])
       \<and> assigned_staffs (service_id self) = Some u
                    \<and> staff_times_first e u = Some st)
       \<and> working_hours st (strftime_A_lower (start_time self)) = Some dt
                    \<and> dict_get dt ''start'' \<noteq> [] \<and> dict_get dt ''end'' \<noteq> [])
       \<and> (strptime_I_M_p (dict_get dt ''start'') = None
                  \<or> strptime_I_M_p (dict_get dt ''end'') = None)"
    using that by (auto simp add: clean_def future_time_def Let_def split: option.split)
qed (simp_all add: clean_def future_time_def Let_def)

theorem clean_check_order_witness:
  "clean ex_env
       ((ex_booking (datetime_of 2024 1 1 11 45 0) (datetime_of 2024 1 1 11 15 0))\<lparr>payment_status := ''refunded''\<rparr>)
     = Inl (ValidationError (FieldError ''start_time'' msg_before_end))
   \<and> clean ex_env
       ((ex_booking (datetime_of 2024 1 1 6 59 39) (datetime_of 2024 1 1 10 0 0))\<lparr>service_id := ex_service\<lparr>assigned_staffs := None\<rparr>\<rparr>)
     = Inl (ValidationError (FieldError ''start_time'' msg_future))
   \<and> clean ex_env
       ((ex_booking (datetime_of 2024 1 1 11 30 0) (datetime_of 2024 1 1 12 30 0))\<lparr>service_id := ex_service\<lparr>assigned_staffs := None\<rparr>\<rparr>)
     = Inl (ValidationError (FieldError ''start_time'' msg_overlap))
   \<and> clean ex_env
       ((ex_booking (datetime_of 2024 1 2 10 0 0) (datetime_of 2024 1 2 10 30 0))\<lparr>service_id := ex_service\<lparr>assigned_staffs := None\<rparr>\<rparr>\<lparr>payment_status := ''refunded''\<rparr>)
     = Inl (ValidationError (FieldError ''service_id'' msg_no_staff))
   \<and> clean ex_env
       ((ex_booking (datetime_of 2024 1 2 10 0 0) (datetime_of 2024 1 2 10 30 0))\<lparr>service_id := ex_service\<lparr>assigned_staffs := Some 8\<rparr>\<rparr>\<lparr>payment_status := ''refunded''\<rparr>)
     = Inl (ValidationError (FieldError ''service_id'' msg_no_hours))
   \<and> clean ex_env
       ((ex_booking (datetime_of 2024 1 2 10 0 0) (datetime_of 2024 1 2 10 30 0))\<lparr>payment_status := ''refunded''\<rparr>)
     = Inl (ValidationError (FieldError ''start_time'' msg_no_day))
   \<and> clean (ex_env\<lparr>staff_times_objects := [ex_staff_times\<lparr>working_hours := ex_hours '''' ''17:00''\<rparr>]\<rparr>)
       ((ex_booking (datetime_of 2024 1 1 8 0 0) (datetime_of 2024 1 1 8 30 0)))
     = Inl (ValidationError (FieldError ''start_time'' msg_incomplete))
   \<and> clean (ex_env\<lparr>staff_times_objects := [ex_staff_times\<lparr>working_hours := ex_hours ''09:00AM'' ''17:00''\<rparr>]\<rparr>)
       ((ex_booking (datetime_of 2024 1 1 8 0 0) (datetime_of 2024 1 1 8 30 0))\<lparr>payment_status := ''refunded''\<rparr>)
     = Inl ValueError
   \<and> clean ex_env
       ((ex_booking (datetime_of 2024 1 1 8 0 0) (datetime_of 2024 1 1 8 30 0))\<lparr>payment_status := ''refunded''\<rparr>)
     = Inl (ValidationError (FieldError ''start_time'' msg_outside))
   \<and> clean ex_env
       ((ex_booking (datetime_of 2024 1 1 10 0 0) (datetime_of 2024 1 1 10 30 0))\<lparr>payment_status := ''refunded''\<rparr>)
     = Inl (ValidationError (NonFieldError (msg_status ex_env) ''invalid''))
   \<and> clean ex_env
       ((ex_booking (datetime_of 2024 1 1 10 0 0) (datetime_of 2024 1 1 10 30 0)))
     = Inr ()"
proof -
  have c1: "clean ex_env
       ((ex_booking (datetime_of 2024 1 1 11 45 0) (datetime_of 2024 1 1 11 15 0))\<lparr>payment_status := ''refunded''\<rparr>)
     = Inl (ValidationError (FieldError ''start_time'' msg_before_end))"
    using clean_check_order [where self = "(ex_booking (datetime_of 2024 1 1 11 45 0) (datetime_of 2024 1 1 11 15 0))\<lparr>payment_status := ''refunded''\<rparr>"
      and e = "ex_env" and u = 7 and st = "ex_staff_times"
      and dt = "[''start'' \<mapsto> ''09:00AM'', ''end'' \<mapsto> ''05:00PM'']"
      and day_start = "time_hm 9 0" and day_end = "time_hm 17 0"]
    by (simp add: Let_def overlapping_bookings_def staff_times_first_def dict_get_def ex_defs
        dt_defs strptime_0900AM strptime_0500PM strptime_1700 strptime_Nil)
  have c2: "clean ex_env
       ((ex_booking (datetime_of 2024 1 1 6 59 39) (datetime_of 2024 1 1 10 0 0))\<lparr>service_id := ex_service\<lparr>assigned_staffs := None\<rparr>\<rparr>)
     = Inl (ValidationError (FieldError ''start_time'' msg_future))"
    using clean_check_order [where self = "(ex_booking (datetime_of 2024 1 1 6 59 39) (datetime_of 2024 1 1 10 0 0))\<lparr>service_id := ex_service\<lparr>assigned_staffs := None\<rparr>\<rparr>"
      and e = "ex_env" and u = 7 and st = "ex_staff_times"
      and dt = "[''start'' \<mapsto> ''09:00AM'', ''end'' \<mapsto> ''05:00PM'']"
      and day_start = "time_hm 9 0" and day_end = "time_hm 17 0"]
    by (simp add: Let_def overlapping_bookings_def staff_times_first_def dict_get_def ex_defs
        dt_defs strptime_0900AM strptime_0500PM strptime_1700 strptime_Nil)
  have c3: "clean ex_env
       ((ex_booking (datetime_of 2024 1 1 11 30 0) (datetime_of 2024 1 1 12 30 0))\<lparr>service_id := ex_service\<lparr>assigned_staffs := None\<rparr>\<rparr>)
     = Inl (ValidationError (FieldError ''start_time'' msg_overlap))"
    using clean_check_order [where self = "(ex_booking (datetime_of 2024 1 1 11 30 0) (datetime_of 2024 1 1 12 30 0))\<lparr>service_id := ex_service\<lparr>assigned_staffs := None\<rparr>\<rparr>"
      and e = "ex_env" and u = 7 and st = "ex_staff_times"
      and dt = "[''start'' \<mapsto> ''09:00AM'', ''end'' \<mapsto> ''05:00PM'']"
      and day_start = "time_hm 9 0" and day_end = "time_hm 17 0"]
    by (simp add: Let_def overlapping_bookings_def staff_times_first_def dict_get_def ex_defs
        dt_defs strptime_0900AM strptime_0500PM strptime_1700 strptime_Nil)
  have c4: "clean ex_env
       ((ex_booking (datetime_of 2024 1 2 10 0 0) (datetime_of 2024 1 2 10 30 0))\<lparr>service_id := ex_service\<lparr>assigned_staffs := None\<rparr>\<rparr>\<lparr>payment_status := ''refunded''\<rparr>)
     = Inl (ValidationError (FieldError ''service_id'' msg_no_staff))"
    using clean_check_order [where self = "(ex_booking (datetime_of 2024 1 2 10 0 0) (datetime_of 2024 1 2 10 30 0))\<lparr>service_id := ex_service\<lparr>assigned_staffs := None\<rparr>\<rparr>\<lparr>payment_status := ''refunded''\<rparr>"
      and e = "ex_env" and u = 7 and st = "ex_staff_times"
      and dt = "[''start'' \<mapsto> ''09:00AM'', ''end'' \<mapsto> ''05:00PM'']"
      and day_start = "time_hm 9 0" and day_end = "time_hm 17 0"]
    by (simp add: Let_def overlapping_bookings_def staff_times_first_def dict_get_def ex_defs
        dt_defs strptime_0900AM strptime_0500PM strptime_1700 strptime_Nil)
  have c5: "clean ex_env
       ((ex_booking (datetime_of 2024 1 2 10 0 0) (datetime_of 2024 1 2 10 30 0))\<lparr>service_id := ex_service\<lparr>assigned_staffs := Some 8\<rparr>\<rparr>\<lparr>payment_status := ''refunded''\<rparr>)
     = Inl (ValidationError (FieldError ''service_id'' msg_no_hours))"
    using clean_check_order [where self = "(ex_booking (datetime_of 2024 1 2 10 0 0) (datetime_of 2024 1 2 10 30 0))\<lparr>service_id := ex_service\<lparr>assigned_staffs := Some 8\<rparr>\<rparr>\<lparr>payment_status := ''refunded''\<rparr>"
      and e = "ex_env" and u = 8 and st = "ex_staff_times"
      and dt = "[''start'' \<mapsto> ''09:00AM'', ''end'' \<mapsto> ''05:00PM'']"
      and day_start = "time_hm 9 0" and day_end = "time_hm 17 0"]
    by (simp add: Let_def overlapping_bookings_def staff_times_first_def dict_get_def ex_defs
        dt_defs strptime_0900AM strptime_0500PM strptime_1700 strptime_Nil)
  have c6: "clean ex_env
       ((ex_booking (datetime_of 2024 1 2 10 0 0) (datetime_of 2024 1 2 10 30 0))\<lparr>payment_status := ''refunded''\<rparr>)
     = Inl (ValidationError (FieldError ''start_time'' msg_no_day))"
    using clean_check_order [where self = "(ex_booking (datetime_of 2024 1 2 10 0 0) (datetime_of 2024 1 2 10 30 0))\<lparr>payment_status := ''refunded''\<rparr>"
      and e = "ex_env" and u = 7 and st = "ex_staff_times"
      and dt = "[''start'' \<mapsto> ''09:00AM'', ''end'' \<mapsto> ''05:00PM'']"
      and day_start = "time_hm 9 0" and day_end = "time_hm 17 0"]
    by (simp add: Let_def overlapping_bookings_def staff_times_first_def dict_get_def ex_defs
        dt_defs strptime_0900AM strptime_0500PM strptime_1700 strptime_Nil)
  have c7: "clean (ex_env\<lparr>staff_times_objects := [ex_staff_times\<lparr>working_hours := ex_hours '''' ''17:00''\<rparr>]\<rparr>)
       ((ex_booking (datetime_of 2024 1 1 8 0 0) (datetime_of 2024 1 1 8 30 0)))
     = Inl (ValidationError (FieldError ''start_time'' msg_incomplete))"
    using clean_check_order [where self = "(ex_booking (datetime_of 2024 1 1 8 0 0) (datetime_of 2024 1 1 8 30 0))"
      and e = "(ex_env\<lparr>staff_times_objects := [ex_staff_times\<lparr>working_hours := ex_hours '''' ''17:00''\<rparr>]\<rparr>)" and u = 7 and st = "(ex_staff_times\<lparr>working_hours := ex_hours '''' ''17:00''\<rparr>)"
      and dt = "[''start'' \<mapsto> '''', ''end'' \<mapsto> ''17:00'']"
      and day_start = "time_hm 9 0" and day_end = "time_hm 17 0"]
    by (simp add: Let_def overlapping_bookings_def staff_times_first_def dict_get_def ex_defs
        dt_defs strptime_0900AM strptime_0500PM strptime_1700 strptime_Nil)
  have c8: "clean (ex_env\<lparr>staff_times_objects := [ex_staff_times\<lparr>working_hours := ex_hours ''09:00AM'' ''17:00''\<rparr>]\<rparr>)
       ((ex_booking (datetime_of 2024 1 1 8 0 0) (datetime_of 2024 1 1 8 30 0))\<lparr>payment_status := ''refunded''\<rparr>)
     = Inl ValueError"
    using clean_check_order [where self = "(ex_booking (datetime_of 2024 1 1 8 0 0) (datetime_of 2024 1 1 8 30 0))\<lparr>payment_status := ''refunded''\<rparr>"
      and e = "(ex_env\<lparr>staff_times_objects := [ex_staff_times\<lparr>working_hours := ex_hours ''09:00AM'' ''17:00''\<rparr>]\<rparr>)" and u = 7 and st = "(ex_staff_times\<lparr>working_hours := ex_hours ''09:00AM'' ''17:00''\<rparr>)"
      and dt = "[''start'' \<mapsto> ''09:00AM'', ''end'' \<mapsto> ''17:00'']"
      and day_start = "time_hm 9 0" and day_end = "time_hm 17 0"]
    by (simp add: Let_def overlapping_bookings_def staff_times_first_def dict_get_def ex_defs
        dt_defs strptime_0900AM strptime_0500PM strptime_1700 strptime_Nil)
  have c9: "clean ex_env
       ((ex_booking (datetime_of 2024 1 1 8 0 0) (datetime_of 2024 1 1 8 30 0))\<lparr>payment_status := ''refunded''\<rparr>)
     = Inl (ValidationError (FieldError ''start_time'' msg_outside))"
    using clean_check_order [where self = "(ex_booking (datetime_of 2024 1 1 8 0 0) (datetime_of 2024 1 1 8 30 0))\<lparr>payment_status := ''refunded''\<rparr>"
      and e = "ex_env" and u = 7 and st = "ex_staff_times"
      and dt = "[''start'' \<mapsto> ''09:00AM'', ''end'' \<mapsto> ''05:00PM'']"
      and day_start = "time_hm 9 0" and day_end = "time_hm 17 0"]
    by (simp add: Let_def overlapping_bookings_def staff_times_first_def dict_get_def ex_defs
        dt_defs strptime_0900AM strptime_0500PM strptime_1700 strptime_Nil)
  have c10: "clean ex_env
       ((ex_booking (datetime_of 2024 1 1 10 0 0) (datetime_of 2024 1 1 10 30 0))\<lparr>payment_status := ''refunded''\<rparr>)
     = Inl (ValidationError (NonFieldError (msg_status ex_env) ''invalid''))"
    using clean_check_order [where self = "(ex_booking (datetime_of 2024 1 1 10 0 0) (datetime_of 2024 1 1 10 30 0))\<lparr>payment_status := ''refunded''\<rparr>"
      and e = "ex_env" and u = 7 and st = "ex_staff_times"
      and dt = "[''start'' \<mapsto> ''09:00AM'', ''end'' \<mapsto> ''05:00PM'']"
      and day_start = "time_hm 9 0" and day_end = "time_hm 17 0"]
    by (simp add: Let_def overlapping_bookings_def staff_times_first_def dict_get_def ex_defs
        dt_defs strptime_0900AM strptime_0500PM strptime_1700 strptime_Nil)
  have c11: "clean ex_env
       ((ex_booking (datetime_of 2024 1 1 10 0 0) (datetime_of 2024 1 1 10 30 0)))
     = Inr ()"
    using clean_check_order [where self = "(ex_booking (datetime_of 2024 1 1 10 0 0) (datetime_of 2024 1 1 10 30 0))"
      and e = "ex_env" and u = 7 and st = "ex_staff_times"
      and dt = "[''start'' \<mapsto> ''09:00AM'', ''end'' \<mapsto> ''05:00PM'']"
      and day_start = "time_hm 9 0" and day_end = "time_hm 17 0"]
    by (simp add: Let_def overlapping_bookings_def staff_times_first_def dict_get_def ex_defs
        dt_defs strptime_0900AM strptime_0500PM strptime_1700 strptime_Nil)
  show ?thesis
    by (intro conjI c1 c2 c3 c4 c5 c6 c7 c8 c9 c10 c11)
qed

text \<open>
  Claim C2, as the code has it. Every \<^verbatim>\<open>ValidationError\<close> of the first eight checks is
  attached to the field \<^verbatim>\<open>start_time\<close> or \<^verbatim>\<open>service_id\<close>; the error of the payment-status
  check is raised as \<^verbatim>\<open>ValidationError(message, code='invalid')\<close> and is attached to no
  field.
\<close>

theorem clean_error_scope:
  assumes "clean e self = Inl (ValidationError v)"
  shows "error_field v = Some ''start_time'' \<or> error_field v = Some ''service_id''
       \<or> (v = NonFieldError (msg_status e) ''invalid''
           \<and> payment_status self \<notin> set (order_status_values e))"
  using assms
  by (auto simp add: clean_def Let_def split: if_splits option.splits)

theorem clean_error_scope_witness:
  "clean ex_env (ex_booking (datetime_of 2024 1 1 11 45 0) (datetime_of 2024 1 1 11 15 0)) = Inl (ValidationError (FieldError ''start_time'' msg_before_end))
   \<and> error_field (FieldError ''start_time'' msg_before_end) = Some ''start_time''"
  using clean_error_scope [where e = ex_env and self = "(ex_booking (datetime_of 2024 1 1 11 45 0) (datetime_of 2024 1 1 11 15 0))"
      and v = "FieldError ''start_time'' msg_before_end"]
  by (simp add: clean_def ex_booking_def dt_defs)

text \<open>
  Claim C2 as stated fails: a booking that passes the first eight checks and has a payment
  status outside the enumeration is rejected with an error that carries no field.
\<close>

theorem clean_payment_status_error_has_no_field:
  "clean ex_env
     ((ex_booking (datetime_of 2024 1 1 10 0 0) (datetime_of 2024 1 1 10 30 0))
        \<lparr>payment_status := ''refunded''\<rparr>)
     = Inl (ValidationError (NonFieldError (msg_status ex_env) ''invalid''))
   \<and> error_field (NonFieldError (msg_status ex_env) ''invalid'') = None"
  by (simp add: clean_def future_time_def overlapping_bookings_def staff_times_first_def
      dict_get_def ex_defs dt_defs strptime_0900AM strptime_0500PM)

text \<open>
  Claim C3. With Monday hours from \<^verbatim>\<open>"09:00AM"\<close> to \<^verbatim>\<open>"17:00"\<close>, an end string that is
  present but not in the 12-hour format, a Monday booking that passes every earlier check does
  not end in a validation failure: \<^verbatim>\<open>strptime\<close> raises \<^verbatim>\<open>ValueError\<close>, which \<open>clean\<close>
  does not catch.
\<close>

theorem clean_unparsable_hours:
  "clean (ex_env\<lparr>staff_times_objects :=
                   [ex_staff_times\<lparr>working_hours := ex_hours ''09:00AM'' ''17:00''\<rparr>]\<rparr>)
         (ex_booking (datetime_of 2024 1 1 10 0 0) (datetime_of 2024 1 1 10 30 0))
     = Inl ValueError"
  by (simp add: clean_def future_time_def overlapping_bookings_def staff_times_first_def
      dict_get_def ex_defs dt_defs strptime_0900AM strptime_1700)

theorem clean_unparsable_hours_witness:
  "\<not> (\<exists>v. clean (ex_env\<lparr>staff_times_objects :=
                   [ex_staff_times\<lparr>working_hours := ex_hours ''09:00AM'' ''17:00''\<rparr>]\<rparr>)
         (ex_booking (datetime_of 2024 1 1 10 0 0) (datetime_of 2024 1 1 10 30 0))
     = Inl (ValidationError v))"
  using clean_unparsable_hours by simp

end
